theory Spec2Isabelle
  imports Complex_Main
begin

section \<open>JavaScript values and style props\<close>

text \<open>
  A JavaScript value as it occurs in a style object: \<open>undefined\<close>, a string, a number or a
  nested object literal (keys in source order). Numbers are layout units and opacities that
  are finite; the components only store, copy, compare with \<open>0\<close> and round them down, so
  they are modelled as reals.
\<close>

datatype JSValue = Undefined | Str string | Num real | Object "(string \<times> JSValue) list"

text \<open>
  React Native's \<open>StyleProp\<close>: \<open>undefined\<close>, one style object, or an array of style props.
\<close>

datatype StyleProp = NoStyle | Obj "(string \<times> JSValue) list" | Arr "StyleProp list"

definition js_str :: "string option \<Rightarrow> JSValue" where
  "js_str v = (case v of None \<Rightarrow> Undefined | Some s \<Rightarrow> Str s)"

definition js_num :: "real option \<Rightarrow> JSValue" where
  "js_num v = (case v of None \<Rightarrow> Undefined | Some n \<Rightarrow> Num n)"

text \<open>The operator \<open>a ?? b\<close> on optional values: \<open>b\<close> only when \<open>a\<close> is \<open>undefined\<close>.\<close>

definition nullish :: "'a option \<Rightarrow> 'a option \<Rightarrow> 'a option" where
  "nullish a b = (case a of None \<Rightarrow> b | Some x \<Rightarrow> Some x)"

text \<open>A destructuring default \<open>x = d\<close>: \<open>d\<close> when the prop is \<open>undefined\<close>.\<close>

definition default_to :: "'a \<Rightarrow> 'a option \<Rightarrow> 'a" where
  "default_to d v = (case v of None \<Rightarrow> d | Some x \<Rightarrow> x)"

section \<open>Button: colour and style resolution\<close>

text \<open>
  \<open>ButtonColors\<close> is declared in \<open>theme/types\<close>, which is not among the sources at
  hand. The record has every field that the component reads, each of them optional: a
  field is \<open>None\<close> when it is \<open>undefined\<close>.
\<close>

record ButtonColors =
  containerBackground :: "string option"
  containerBackgroundDisabled :: "string option"
  containerBackgroundPressed :: "string option"
  containerBorder :: "string option"
  containerBorderDisabled :: "string option"
  containerBorderPressed :: "string option"
  opacity :: "real option"
  opacityDisabled :: "real option"
  opacityPressed :: "real option"
  shadow :: "string option"
  shadowDisabled :: "string option"
  shadowPressed :: "string option"
  "text" :: "string option"
  disabledText :: "string option"
  pressedText :: "string option"

text \<open>
  The imports of \<open>./button-style\<close>, taken as parameters: the base styles, the two sentinel
  shadow styles, and the tables indexed by modifier and by width option. The tables are
  total on the string-literal unions \<open>ButtonModifier\<close> and \<open>ButtonWidthOption\<close>.
\<close>

record ButtonStyle =
  baseButtonStyle_pressed :: StyleProp
  baseButtonStyle_buttonContainer :: StyleProp
  baseButtonStyle_buttonContainerInner :: StyleProp
  baseButtonStyle_buttonIconDisabled :: StyleProp
  buttonModifierStyle_size :: "string \<Rightarrow> StyleProp"
  buttonModifierStyle_text :: "string \<Rightarrow> (string \<times> JSValue) list"
  buttonWidthOptionStyle_width :: "string \<Rightarrow> StyleProp"
  shadowStyle :: StyleProp
  noShadow :: StyleProp

text \<open>
  \<open>buttonColors\<close> (the \<open>useMemo\<close> of lines 70 to 80): the override when it is not
  \<open>undefined\<close>, otherwise the entry of the dark or of the light table for the variant.
\<close>

definition buttonColors ::
  "ButtonColors option \<Rightarrow> string \<Rightarrow> string \<Rightarrow>
   (string \<Rightarrow> ButtonColors) \<Rightarrow> (string \<Rightarrow> ButtonColors) \<Rightarrow> ButtonColors" where
  "buttonColors buttonColorOverrides colorScheme buttonVariant
       darkButtonColorMappings lightButtonColorMappings =
     (case buttonColorOverrides of
        Some ov \<Rightarrow> ov
      | None \<Rightarrow>
          if colorScheme = ''dark'' then darkButtonColorMappings buttonVariant
          else lightButtonColorMappings buttonVariant)"

text \<open>
  The local variables of \<open>buttonContainerStyle\<close> (lines 88 to 101): each starts at the base
  value and is reassigned in the \<open>disabled\<close> branch, else in the \<open>pressed\<close> branch.
\<close>

definition buttonBackgroundColor :: "ButtonColors \<Rightarrow> bool \<Rightarrow> bool \<Rightarrow> string option" where
  "buttonBackgroundColor colors disabled pressed =
     (if disabled then nullish (containerBackgroundDisabled colors) (containerBackground colors)
      else if pressed then nullish (containerBackgroundPressed colors) (containerBackground colors)
      else containerBackground colors)"

definition buttonBorderColor :: "ButtonColors \<Rightarrow> bool \<Rightarrow> bool \<Rightarrow> string option" where
  "buttonBorderColor colors disabled pressed =
     (if disabled then nullish (containerBorderDisabled colors) (containerBorder colors)
      else if pressed then nullish (containerBorderPressed colors) (containerBorder colors)
      else containerBorder colors)"

text \<open>
  \<open>buttonOpacity\<close> is computed by the same three branches in \<open>buttonContainerStyle\<close>
  (lines 90 to 101) and in \<open>buttonShadowStyle\<close> (lines 122 to 131).
\<close>

definition buttonOpacity :: "ButtonColors \<Rightarrow> bool \<Rightarrow> bool \<Rightarrow> real option" where
  "buttonOpacity colors disabled pressed =
     (if disabled then opacityDisabled colors
      else if pressed then opacityPressed colors
      else opacity colors)"

text \<open>\<open>buttonContainerStyle\<close> (lines 82 to 117), applied to the pressable state.\<close>

definition buttonContainerStyle ::
  "ButtonStyle \<Rightarrow> string \<Rightarrow> string \<Rightarrow> ButtonColors \<Rightarrow> bool \<Rightarrow> StyleProp \<Rightarrow> bool \<Rightarrow> StyleProp" where
  "buttonContainerStyle bs modifier widthOption colors disabled bodyStyleOverrides pressed =
     (let buttonContainer = baseButtonStyle_buttonContainer bs;
          buttonSize = buttonModifierStyle_size bs modifier;
          buttonWidth = buttonWidthOptionStyle_width bs widthOption;
          style = [buttonContainer, buttonSize, buttonWidth,
                   Obj [(''backgroundColor'', js_str (buttonBackgroundColor colors disabled pressed)),
                        (''borderColor'', js_str (buttonBorderColor colors disabled pressed)),
                        (''opacity'', js_num (buttonOpacity colors disabled pressed))]];
          style' = (if buttonBorderColor colors disabled pressed = None
                    then style @ [Obj [(''borderWidth'', Num 0)]] else style)
      in Arr (style' @ [bodyStyleOverrides]))"

text \<open>The local variable \<open>buttonShadowColor\<close> of \<open>buttonShadowStyle\<close> (lines 121 to 131).\<close>

definition buttonShadowColor :: "ButtonColors \<Rightarrow> bool \<Rightarrow> bool \<Rightarrow> string option" where
  "buttonShadowColor colors disabled pressed =
     (if disabled then nullish (shadowDisabled colors) (shadow colors)
      else if pressed then nullish (shadowPressed colors) (shadow colors)
      else shadow colors)"

text \<open>
  \<open>buttonShadowStyle\<close> (lines 119 to 150), applied to the pressable state. The early return
  of the sentinel comes before the two table lookups.
\<close>

definition buttonShadowStyle ::
  "ButtonStyle \<Rightarrow> string \<Rightarrow> string \<Rightarrow> ButtonColors \<Rightarrow> bool \<Rightarrow> bool \<Rightarrow> StyleProp" where
  "buttonShadowStyle bs modifier widthOption colors disabled pressed =
     (if buttonShadowColor colors disabled pressed = None then noShadow bs
      else
        (let buttonSize = buttonModifierStyle_size bs modifier;
             buttonWidth = buttonWidthOptionStyle_width bs widthOption
         in Arr [shadowStyle bs,
                 Obj [(''backgroundColor'', js_str (buttonShadowColor colors disabled pressed)),
                      (''opacity'', js_num (buttonOpacity colors disabled pressed))],
                 buttonSize, buttonWidth]))"

text \<open>Reading a key of an object literal, and \<open>{...obj, k: v}\<close>.\<close>

definition js_get :: "(string \<times> JSValue) list \<Rightarrow> string \<Rightarrow> JSValue" where
  "js_get obj k = (case map_of obj k of None \<Rightarrow> Undefined | Some v \<Rightarrow> v)"

fun js_set :: "(string \<times> JSValue) list \<Rightarrow> string \<Rightarrow> JSValue \<Rightarrow> (string \<times> JSValue) list" where
  "js_set [] k v = [(k, v)]"
| "js_set ((k', v') # kvs) k v = (if k' = k then (k, v) # kvs else (k', v') # js_set kvs k v)"

text \<open>The local variable \<open>buttonTextColor\<close> of \<open>buttonTextStyle\<close> (lines 156 to 161).\<close>

definition buttonTextColor :: "ButtonColors \<Rightarrow> bool \<Rightarrow> bool \<Rightarrow> string option" where
  "buttonTextColor colors disabled pressed =
     (if disabled then nullish (disabledText colors) (text colors)
      else if pressed then nullish (pressedText colors) (text colors)
      else text colors)"

text \<open>
  \<open>buttonTextStyle\<close> (lines 152 to 174). \<open>transformToBolderFontWeight\<close> is imported from
  \<open>theme/typography\<close> and taken as a parameter.
\<close>

definition buttonTextStyle ::
  "ButtonStyle \<Rightarrow> (JSValue \<Rightarrow> JSValue) \<Rightarrow> string \<Rightarrow> ButtonColors \<Rightarrow> bool \<Rightarrow> bool \<Rightarrow> bool \<Rightarrow> StyleProp" where
  "buttonTextStyle bs transformToBolderFontWeight modifier colors disabled isBoldTextEnabled pressed =
     (let buttonText = buttonModifierStyle_text bs modifier
      in Arr [Obj (js_set buttonText ''fontWeight''
                     (if isBoldTextEnabled
                      then transformToBolderFontWeight (js_get buttonText ''fontWeight'')
                      else js_get buttonText ''fontWeight'')),
              Obj [(''color'', js_str (buttonTextColor colors disabled pressed))]])"

text \<open>\<open>iconSize\<close> (line 177).\<close>

definition iconSize :: "string \<Rightarrow> nat" where
  "iconSize modifier = (if modifier = ''small'' then 20 else 24)"

section \<open>Button: measured layout and render\<close>

text \<open>
  The two \<open>useState\<close> cells of lines 190 and 191, both \<open>undefined\<close> at mount, and the
  layout rectangle of a \<open>LayoutChangeEvent\<close> (\<open>evt.nativeEvent.layout\<close>).
\<close>

record ButtonLayout =
  buttonContainerHeight :: "real option"
  buttonContainerWidth :: "real option"

record LayoutChangeEvent =
  layout_height :: real
  layout_width :: real

definition unmeasured :: ButtonLayout where
  "unmeasured = \<lparr>buttonContainerHeight = None, buttonContainerWidth = None\<rparr>"

definition Math_floor :: "real \<Rightarrow> real" where
  "Math_floor v = of_int \<lfloor>v\<rfloor>"

text \<open>\<open>onLayoutButtonContainer\<close> (lines 193 to 198): both cells are set on every call.\<close>

definition onLayoutButtonContainer :: "LayoutChangeEvent \<Rightarrow> ButtonLayout \<Rightarrow> ButtonLayout" where
  "onLayoutButtonContainer evt st =
     st\<lparr>buttonContainerHeight := Some (Math_floor (layout_height evt)),
        buttonContainerWidth := Some (Math_floor (layout_width evt))\<rparr>"

text \<open>
  The container view carries \<open>onLayout={onLayoutButtonContainer}\<close> in every render
  (line 214), so each layout event of the container reaches the handler, in order.
\<close>

fun layout_events :: "LayoutChangeEvent list \<Rightarrow> ButtonLayout \<Rightarrow> ButtonLayout" where
  "layout_events [] st = st"
| "layout_events (evt # evts) st = layout_events evts (onLayoutButtonContainer evt st)"

text \<open>The props of \<open>Button\<close> (lines 26 to 41); \<open>onPress\<close> is only handed to the pressable.\<close>

record ButtonProps =
  i18nKey :: string
  i18nParams :: "(string \<times> JSValue) list option"
  testID :: "string option"
  variant :: "string option"
  widthOption :: "string option"
  modifier :: "string option"
  disabled :: "bool option"
  bodyStyleOverrides :: "StyleProp option"
  buttonColorOverrides :: "ButtonColors option"
  iconSource :: "string option"
  iconPosition :: "string option"
  accessibilityRole :: "string option"
  accessibilityHint :: "string option"

text \<open>
  What the hooks and the imported modules give the component. The translation \<open>t\<close> takes
  the key and the optional parameters: line 176 calls \<open>t(i18nKey, i18nParams)\<close> when the
  parameters are given and \<open>t(i18nKey)\<close> when they are not.
\<close>

record ButtonEnv =
  t :: "string \<Rightarrow> (string \<times> JSValue) list option \<Rightarrow> string"
  colorScheme :: string
  isBoldTextEnabled :: bool
  addTestIdModifier :: "string \<Rightarrow> string \<Rightarrow> string"
  darkButtonColorMappings :: "string \<Rightarrow> ButtonColors"
  lightButtonColorMappings :: "string \<Rightarrow> ButtonColors"
  transformToBolderFontWeight :: "JSValue \<Rightarrow> JSValue"
  buttonStyle :: ButtonStyle

text \<open>The rendered tree (lines 200 to 235), one field for each element and prop.\<close>

record SvgImage =
  svg_type :: string
  svg_width :: nat
  svg_height :: nat
  svg_style :: "StyleProp option"

datatype ContainerWrapper = ViewWrapper | FragmentWrapper

record ButtonRender =
  pressable_testID :: "string option"
  pressable_disabled :: bool
  pressable_accessibilityLabel :: string
  pressable_accessibilityRole :: string
  pressable_accessibilityHint :: "string option"
  pressable_accessibilityState_disabled :: "bool option"
  pressable_style :: StyleProp
  wrapper :: ContainerWrapper
  shadowLayer_style :: StyleProp
  container_style :: StyleProp
  inner_style :: StyleProp
  leftIcon :: "SvgImage option"
  text_testID :: string
  text_style :: StyleProp
  text_children :: string
  rightIcon :: "SvgImage option"

text \<open>A string is truthy when it is neither \<open>undefined\<close> nor empty.\<close>

definition truthy :: "string option \<Rightarrow> bool" where
  "truthy v = (case v of None \<Rightarrow> False | Some s \<Rightarrow> s \<noteq> [])"

definition Button :: "ButtonEnv \<Rightarrow> ButtonProps \<Rightarrow> ButtonLayout \<Rightarrow> bool \<Rightarrow> ButtonRender" where
  "Button env props st pressed =
     (let buttonVariant = default_to ''primary'' (variant props);
          widthOption' = default_to ''stretch'' (widthOption props);
          modifier' = default_to ''default'' (modifier props);
          disabled' = default_to False (disabled props);
          bodyStyleOverrides' = default_to (Obj []) (bodyStyleOverrides props);
          iconPosition' = default_to ''right'' (iconPosition props);
          accessibilityRole' = default_to ''button'' (accessibilityRole props);
          bs = buttonStyle env;
          buttonPressableStyle = buttonWidthOptionStyle_width bs widthOption';
          colors = buttonColors (buttonColorOverrides props) (colorScheme env) buttonVariant
                     (darkButtonColorMappings env) (lightButtonColorMappings env);
          buttonText = t env (i18nKey props) (i18nParams props);
          iconSize' = iconSize modifier'
      in \<lparr>pressable_testID = testID props,
          pressable_disabled = disabled',
          pressable_accessibilityLabel = buttonText,
          pressable_accessibilityRole = accessibilityRole',
          pressable_accessibilityHint = accessibilityHint props,
          pressable_accessibilityState_disabled = (if disabled' then Some True else None),
          pressable_style = Arr [baseButtonStyle_pressed bs, buttonPressableStyle],
          wrapper = (if widthOption' = ''content'' then ViewWrapper else FragmentWrapper),
          shadowLayer_style =
            Arr [buttonShadowStyle bs modifier' widthOption' colors disabled' pressed,
                 Obj [(''height'', js_num (buttonContainerHeight st)),
                      (''width'', js_num (buttonContainerWidth st))]],
          container_style =
            buttonContainerStyle bs modifier' widthOption' colors disabled' bodyStyleOverrides' pressed,
          inner_style = baseButtonStyle_buttonContainerInner bs,
          leftIcon =
            (if truthy (iconSource props) \<and> iconPosition' = ''left''
             then Some \<lparr>svg_type = default_to [] (iconSource props), svg_width = iconSize',
                         svg_height = iconSize', svg_style = None\<rparr>
             else None),
          text_testID = addTestIdModifier env (default_to (i18nKey props) (testID props)) ''text'',
          text_style =
            buttonTextStyle bs (transformToBolderFontWeight env) modifier' colors disabled'
              (isBoldTextEnabled env) pressed,
          text_children = buttonText,
          rightIcon =
            (if truthy (iconSource props) \<and> iconPosition' = ''right''
             then Some \<lparr>svg_type = default_to [] (iconSource props), svg_width = iconSize',
                         svg_height = iconSize',
                         svg_style = Some (Arr [if disabled' then baseButtonStyle_buttonIconDisabled bs
                                                else NoStyle])\<rparr>
             else None)\<rparr>)"

section \<open>Alert\<close>

text \<open>
  Functions are modelled by what they are. The two callbacks that \<open>Alert\<close> creates
  (lines 19 and 20) are the closures \<open>() => onChange?.(b)\<close> over the \<open>onChange\<close> prop; a
  function that the caller passes in is identified by a value of type \<open>'f\<close>. Calling a
  handler yields the calls of caller functions that it makes.
\<close>

datatype 'f Handler = Report "'f option" bool | Caller 'f

datatype 'f Effect = OnChangeCalled 'f bool | CallerCalled 'f

fun invoke :: "'f Handler \<Rightarrow> 'f Effect list" where
  "invoke (Report None b) = []"
| "invoke (Report (Some onChange) b) = [OnChangeCalled onChange b]"
| "invoke (Caller f) = [CallerCalled f]"

text \<open>
  A key of the rest object \<open>modalProps\<close>: absent, or present with a value that may be
  \<open>undefined\<close>. In JSX a spread attribute that comes after an attribute of the same name
  replaces it whenever the key is present.
\<close>

datatype 'a Passthrough = Absent | Present "'a option"

definition spread :: "'a option \<Rightarrow> 'a Passthrough \<Rightarrow> 'a option" where
  "spread own p = (case p of Absent \<Rightarrow> own | Present v \<Rightarrow> v)"

text \<open>A function that the caller passes under a handler key, as a handler.\<close>

definition as_handler :: "'f Passthrough \<Rightarrow> 'f Handler Passthrough" where
  "as_handler p = (case p of Absent \<Rightarrow> Absent | Present f \<Rightarrow> Present (map_option Caller f))"

text \<open>
  \<open>modalProps\<close> (line 18): the props that are left of \<open>ModalProps\<close> once \<open>visible\<close> and
  \<open>children\<close> are taken out by the destructuring. The keys that \<open>Alert\<close> also sets are
  listed; \<open>pt_rest\<close> stands for all the others.
\<close>

record ('f, 'o) ModalPassthrough =
  pt_presentationStyle :: "string Passthrough"
  pt_transparent :: "bool Passthrough"
  pt_onRequestClose :: "'f Passthrough"
  pt_onShow :: "'f Passthrough"
  pt_onDismiss :: "'f Passthrough"
  pt_rest :: 'o

record ('f, 'k, 'o) AlertProps =
  visible :: bool
  onChange :: "'f option"
  children :: 'k
  dismissable :: "bool option"
  isLoading :: "bool option"
  modalProps :: "('f, 'o) ModalPassthrough"

text \<open>
  The child of the modal (lines 38 to 45): the loading overlay, or the container with its
  \<open>visible\<close> prop, the backdrop's \<open>dismissable\<close> prop and the children.
\<close>

datatype 'k AlertBody = LoadingIndicatorOverlay | AlertContainer bool "bool option" 'k

record ('f, 'k, 'o) ModalElement =
  modal_presentationStyle :: "string option"
  modal_transparent :: "bool option"
  modal_visible :: bool
  modal_onRequestClose :: "'f Handler option"
  modal_onShow :: "'f Handler option"
  modal_onDismiss :: "'f Handler option"
  modal_rest :: 'o
  modal_children :: "'k AlertBody"

record ('f, 'k, 'o) AlertRender =
  providerValue_dismiss :: "'f Handler"
  modal :: "('f, 'k, 'o) ModalElement"

definition Alert :: "('f, 'k, 'o) AlertProps \<Rightarrow> ('f, 'k, 'o) AlertRender" where
  "Alert props =
     (let onShow = Report (onChange props) True;
          onHide = Report (onChange props) False;
          mp = modalProps props
      in \<lparr>providerValue_dismiss = onHide,
          modal =
            \<lparr>modal_presentationStyle = spread (Some ''overFullScreen'') (pt_presentationStyle mp),
             modal_transparent = spread (Some True) (pt_transparent mp),
             modal_visible = (visible props \<or> isLoading props = Some True),
             modal_onRequestClose = spread (Some onHide) (as_handler (pt_onRequestClose mp)),
             modal_onShow = spread (Some onShow) (as_handler (pt_onShow mp)),
             modal_onDismiss = spread (Some onHide) (as_handler (pt_onDismiss mp)),
             modal_rest = pt_rest mp,
             modal_children =
               (if isLoading props = Some True then LoadingIndicatorOverlay
                else AlertContainer (visible props) (dismissable props) (children props))\<rparr>\<rparr>)"

text \<open>
  The events of the host modal. Each calls the handler that the modal element carries under
  the matching prop, if there is one.
\<close>

datatype HostEvent = RequestClose | Show | Dismiss

definition host_handler :: "('f, 'k, 'o) ModalElement \<Rightarrow> HostEvent \<Rightarrow> 'f Handler option" where
  "host_handler m ev =
     (case ev of RequestClose \<Rightarrow> modal_onRequestClose m
      | Show \<Rightarrow> modal_onShow m
      | Dismiss \<Rightarrow> modal_onDismiss m)"

definition host_fires :: "('f, 'k, 'o) ModalElement \<Rightarrow> HostEvent \<Rightarrow> 'f Effect list" where
  "host_fires m ev = (case host_handler m ev of None \<Rightarrow> [] | Some h \<Rightarrow> invoke h)"

section \<open>AlertContent\<close>

text \<open>
  The style sheet of lines 48 to 67. \<open>spacing\<close> is imported from \<open>theme/spacing\<close> and taken
  as a parameter.
\<close>

definition styles_container :: "(nat \<Rightarrow> real) \<Rightarrow> StyleProp" where
  "styles_container spacing =
     Obj [(''borderRadius'', Num (spacing 5)),
          (''shadowColor'', Str ''#000''),
          (''shadowOffset'', Object [(''width'', Num 0), (''height'', Num 2)]),
          (''shadowOpacity'', Num (25 / 100)),
          (''shadowRadius'', Num (384 / 100)),
          (''elevation'', Num 5)]"

definition styles_content :: "(nat \<Rightarrow> real) \<Rightarrow> StyleProp" where
  "styles_content spacing =
     Obj [(''width'', Str ''100%''),
          (''alignItems'', Str ''center''),
          (''paddingHorizontal'', Num (spacing 5)),
          (''paddingVertical'', Num (spacing 6))]"

text \<open>
  What \<open>AlertContent\<close> returns: the plain view of lines 27 to 33, which carries the
  \<open>onLayout\<close> handler, or the scroll view of lines 38 to 44 with its \<open>style\<close> and its
  \<open>contentContainerStyle\<close>, which carries none.
\<close>

datatype 'k ContentElement = View StyleProp 'k | ScrollView StyleProp StyleProp 'k

record 'k AlertContentProps =
  content_style :: StyleProp
  content_children :: 'k

record AlertContentEnv =
  colors_secondaryBackground :: string
  spacing :: "nat \<Rightarrow> real"

text \<open>The handler of lines 15 to 23, on the state cell \<open>contentHeight\<close> of line 13.\<close>

definition onLayout :: "LayoutChangeEvent \<Rightarrow> real \<Rightarrow> real" where
  "onLayout evt contentHeight = layout_height evt"

definition AlertContent :: "AlertContentEnv \<Rightarrow> 'k AlertContentProps \<Rightarrow> real \<Rightarrow> 'k ContentElement" where
  "AlertContent env props contentHeight =
     (if contentHeight = 0
      then View (Arr [styles_container (spacing env),
                      Obj [(''backgroundColor'', Str (colors_secondaryBackground env))],
                      styles_content (spacing env),
                      content_style props])
             (content_children props)
      else ScrollView (Arr [styles_container (spacing env),
                            Obj [(''backgroundColor'', Str (colors_secondaryBackground env))],
                            Obj [(''maxHeight'', Num contentHeight)]])
             (Arr [styles_content (spacing env), content_style props])
             (content_children props))"

definition element_onLayout :: "'k ContentElement \<Rightarrow> (LayoutChangeEvent \<Rightarrow> real \<Rightarrow> real) option" where
  "element_onLayout el = (case el of View _ _ \<Rightarrow> Some onLayout | ScrollView _ _ _ \<Rightarrow> None)"

text \<open>
  A layout event of the rendered element reaches the handler that this element carries;
  the state it leaves is the state of the next render.
\<close>

definition content_layout ::
  "AlertContentEnv \<Rightarrow> 'k AlertContentProps \<Rightarrow> LayoutChangeEvent \<Rightarrow> real \<Rightarrow> real" where
  "content_layout env props evt contentHeight =
     (case element_onLayout (AlertContent env props contentHeight) of
        None \<Rightarrow> contentHeight
      | Some handler \<Rightarrow> handler evt contentHeight)"

fun content_layouts ::
  "AlertContentEnv \<Rightarrow> 'k AlertContentProps \<Rightarrow> LayoutChangeEvent list \<Rightarrow> real \<Rightarrow> real" where
  "content_layouts env props [] contentHeight = contentHeight"
| "content_layouts env props (evt # evts) contentHeight =
     content_layouts env props evts (content_layout env props evt contentHeight)"

section \<open>Concrete inputs\<close>

text \<open>
  A colour set with no border and no shadow colours, a base opacity and no disabled opacity,
  and a small style module whose sentinel \<open>noShadow\<close> is zero-size and transparent.
\<close>

definition faded_colors :: ButtonColors where
  "faded_colors =
     \<lparr>containerBackground = Some ''#ffffff'', containerBackgroundDisabled = None,
      containerBackgroundPressed = Some ''#eeeeee'',
      containerBorder = None, containerBorderDisabled = None, containerBorderPressed = None,
      opacity = Some (1 / 2), opacityDisabled = None, opacityPressed = Some (3 / 4),
      shadow = None, shadowDisabled = None, shadowPressed = None,
      text = Some ''#000000'', disabledText = Some ''#888888'', pressedText = None\<rparr>"

definition plain_style :: ButtonStyle where
  "plain_style =
     \<lparr>baseButtonStyle_pressed = Obj [],
      baseButtonStyle_buttonContainer = Obj [(''borderWidth'', Num 2)],
      baseButtonStyle_buttonContainerInner = Obj [],
      baseButtonStyle_buttonIconDisabled = Obj [(''opacity'', Num (1 / 2))],
      buttonModifierStyle_size =
        (\<lambda>m. Obj [(''minHeight'', Num (if m = ''small'' then 36 else 48))]),
      buttonModifierStyle_text = (\<lambda>m. [(''fontWeight'', Str ''500'')]),
      buttonWidthOptionStyle_width =
        (\<lambda>w. Obj [(''alignSelf'', Str (if w = ''content'' then ''flex-start'' else ''stretch''))]),
      shadowStyle = Obj [(''position'', Str ''absolute'')],
      noShadow = Obj [(''height'', Num 0), (''width'', Num 0),
                      (''backgroundColor'', Str ''transparent'')]\<rparr>"

text \<open>A button environment, and props that ask for a small button with an icon.\<close>

definition plain_env :: ButtonEnv where
  "plain_env =
     \<lparr>t = (\<lambda>k ps. k), colorScheme = ''light'', isBoldTextEnabled = False,
      addTestIdModifier = (\<lambda>i s. i @ ''_'' @ s),
      darkButtonColorMappings = (\<lambda>v. faded_colors),
      lightButtonColorMappings = (\<lambda>v. faded_colors),
      transformToBolderFontWeight = (\<lambda>v. Str ''700''),
      buttonStyle = plain_style\<rparr>"

definition icon_props :: ButtonProps where
  "icon_props =
     \<lparr>i18nKey = ''ok'', i18nParams = None, testID = None, variant = None, widthOption = None,
      modifier = Some ''small'', disabled = None, bodyStyleOverrides = None,
      buttonColorOverrides = None, iconSource = Some ''arrow'', iconPosition = None,
      accessibilityRole = None, accessibilityHint = None\<rparr>"

text \<open>
  An alert that is loading and not visible, with no passthrough props, and passthrough props
  that give all five keys that \<open>Alert\<close> sets itself. Caller functions are numbered.
\<close>

definition no_passthrough :: "(nat, unit) ModalPassthrough" where
  "no_passthrough =
     \<lparr>pt_presentationStyle = Absent, pt_transparent = Absent, pt_onRequestClose = Absent,
      pt_onShow = Absent, pt_onDismiss = Absent, pt_rest = ()\<rparr>"

definition loading_props :: "(nat, string, unit) AlertProps" where
  "loading_props =
     \<lparr>visible = False, onChange = Some 0, children = ''message'', dismissable = Some True,
      isLoading = Some True, modalProps = no_passthrough\<rparr>"

definition full_passthrough :: "(nat, unit) ModalPassthrough" where
  "full_passthrough =
     \<lparr>pt_presentationStyle = Present (Some ''fullScreen''),
      pt_transparent = Present (Some False),
      pt_onRequestClose = Present (Some 1), pt_onShow = Present (Some 2),
      pt_onDismiss = Present None, pt_rest = ()\<rparr>"

text \<open>An environment and props of \<open>AlertContent\<close>, and four layout events of its view.\<close>

definition content_env :: AlertContentEnv where
  "content_env = \<lparr>colors_secondaryBackground = ''#ffffff'', spacing = (\<lambda>i. 4 * real i)\<rparr>"

definition content_props :: "string AlertContentProps" where
  "content_props = \<lparr>content_style = NoStyle, content_children = ''message''\<rparr>"

definition heights :: "LayoutChangeEvent list" where
  "heights =
     [\<lparr>layout_height = 0, layout_width = 320\<rparr>, \<lparr>layout_height = 120, layout_width = 320\<rparr>,
      \<lparr>layout_height = 0, layout_width = 320\<rparr>, \<lparr>layout_height = 300, layout_width = 320\<rparr>]"

section \<open>Colour overrides\<close>

text \<open>
  C3. When \<open>buttonColorOverrides\<close> is supplied, the resolved \<open>ButtonColors\<close> record is the
  override itself, whatever the variant and the colour scheme are, and whatever the dark and
  light tables hold: the result does not depend on them.
\<close>

theorem buttonColors_override:
  "buttonColors (Some ov) cs v dark light = ov \<and>
   buttonColors (Some ov) cs v dark light = buttonColors (Some ov) cs' v' dark' light'"
  by (simp add: buttonColors_def)

theorem buttonColors_override_witness:
  "buttonColors (Some faded_colors) ''dark'' ''primary'' (\<lambda>_. faded_colors\<lparr>opacity := None\<rparr>)
     (\<lambda>_. faded_colors\<lparr>shadow := Some ''#000000''\<rparr>) = faded_colors"
  using buttonColors_override [of faded_colors "''dark''" "''primary''"
      "\<lambda>_. faded_colors\<lparr>opacity := None\<rparr>" "\<lambda>_. faded_colors\<lparr>shadow := Some ''#000000''\<rparr>"]
  by simp

section \<open>Sentinels of the shadow and container styles\<close>

text \<open>
  C7. For every colour set, modifier, width option and interaction state, when the resolved
  shadow colour is \<open>undefined\<close>, \<open>buttonShadowStyle\<close> returns the sentinel \<open>noShadow\<close> of
  the style module, and the button still renders its shadow layer, with the sentinel as the
  resolved style.
\<close>

theorem buttonShadowStyle_noShadow:
  "(buttonShadowColor c d p = None \<longrightarrow> buttonShadowStyle bs m w c d p = noShadow bs) \<and>
   (buttonShadowColor
      (buttonColors (buttonColorOverrides props) (colorScheme env)
         (default_to ''primary'' (variant props))
         (darkButtonColorMappings env) (lightButtonColorMappings env))
      (default_to False (disabled props)) p = None \<longrightarrow>
    shadowLayer_style (Button env props st p) =
      Arr [noShadow (buttonStyle env),
           Obj [(''height'', js_num (buttonContainerHeight st)),
                (''width'', js_num (buttonContainerWidth st))]])"
  by (simp add: buttonShadowStyle_def Button_def Let_def)

theorem buttonShadowStyle_noShadow_witness:
  "buttonShadowColor faded_colors True False = None \<and>
   buttonShadowStyle plain_style ''default'' ''stretch'' faded_colors True False =
     Obj [(''height'', Num 0), (''width'', Num 0), (''backgroundColor'', Str ''transparent'')] \<and>
   shadowLayer_style (Button plain_env icon_props unmeasured False) =
     Arr [Obj [(''height'', Num 0), (''width'', Num 0), (''backgroundColor'', Str ''transparent'')],
          Obj [(''height'', Undefined), (''width'', Undefined)]]"
proof -
  have h: "buttonShadowColor faded_colors True False = None"
    by (simp add: buttonShadowColor_def faded_colors_def nullish_def)
  have c: "buttonColors (buttonColorOverrides icon_props) (colorScheme plain_env)
             (default_to ''primary'' (variant icon_props))
             (darkButtonColorMappings plain_env) (lightButtonColorMappings plain_env) = faded_colors"
    by (simp add: buttonColors_def icon_props_def plain_env_def)
  have d: "default_to False (disabled icon_props) = False"
    by (simp add: default_to_def icon_props_def)
  note th = buttonShadowStyle_noShadow [where c = faded_colors and d = True and p = False
      and bs = plain_style and m = "''default''" and w = "''stretch''"
      and props = icon_props and env = plain_env and st = unmeasured]
  have a: "buttonShadowStyle plain_style ''default'' ''stretch'' faded_colors True False =
      noShadow plain_style"
    using th [THEN conjunct1] h by simp
  have k: "buttonShadowColor faded_colors False False = None"
    by (simp add: buttonShadowColor_def faded_colors_def)
  have b: "shadowLayer_style (Button plain_env icon_props unmeasured False) =
      Arr [noShadow (buttonStyle plain_env),
           Obj [(''height'', js_num (buttonContainerHeight unmeasured)),
                (''width'', js_num (buttonContainerWidth unmeasured))]]"
    using th [THEN conjunct2] k by (simp only: c d simp_thms)
  from h a b show ?thesis
    by (simp add: plain_style_def plain_env_def unmeasured_def js_num_def)
qed

text \<open>
  C8. For every colour set and interaction state, when the resolved border colour is
  \<open>undefined\<close>, the container style holds the entry \<open>{borderWidth: 0}\<close>, after the colour
  entry and before the caller's overrides.
\<close>

theorem buttonContainerStyle_borderWidth:
  "buttonBorderColor c d p = None \<Longrightarrow>
   buttonContainerStyle bs m w c d ov p =
     Arr [baseButtonStyle_buttonContainer bs, buttonModifierStyle_size bs m,
          buttonWidthOptionStyle_width bs w,
          Obj [(''backgroundColor'', js_str (buttonBackgroundColor c d p)),
               (''borderColor'', Undefined),
               (''opacity'', js_num (buttonOpacity c d p))],
          Obj [(''borderWidth'', Num 0)],
          ov]"
  by (simp add: buttonContainerStyle_def js_str_def)

theorem buttonContainerStyle_borderWidth_witness:
  "buttonBorderColor faded_colors False True = None \<and>
   buttonContainerStyle plain_style ''small'' ''content'' faded_colors False (Obj []) True =
     Arr [Obj [(''borderWidth'', Num 2)], Obj [(''minHeight'', Num 36)],
          Obj [(''alignSelf'', Str ''flex-start'')],
          Obj [(''backgroundColor'', Str ''#eeeeee''),
               (''borderColor'', Undefined),
               (''opacity'', Num (3 / 4))],
          Obj [(''borderWidth'', Num 0)],
          Obj []]"
proof -
  have h: "buttonBorderColor faded_colors False True = None"
    by (simp add: buttonBorderColor_def faded_colors_def nullish_def)
  from buttonContainerStyle_borderWidth [OF h, of plain_style "''small''" "''content''" "Obj []"] h
  show ?thesis
    by (simp add: plain_style_def buttonBackgroundColor_def buttonOpacity_def faded_colors_def
        nullish_def js_str_def js_num_def)
qed

section \<open>Disabled before pressed\<close>

text \<open>
  C2, as the claim states it, fails for the opacity: a disabled button whose colour set has
  a base opacity and no disabled opacity gets the opacity \<open>undefined\<close>, not the base one.
\<close>

theorem disabled_opacity_counterexample:
  "opacityDisabled faded_colors = None \<and> opacity faded_colors = Some (1 / 2) \<and>
   buttonOpacity faded_colors True True \<noteq> nullish (opacityDisabled faded_colors) (opacity faded_colors) \<and>
   buttonContainerStyle plain_style ''default'' ''stretch'' faded_colors True (Obj []) True =
     Arr [Obj [(''borderWidth'', Num 2)], Obj [(''minHeight'', Num 48)],
          Obj [(''alignSelf'', Str ''stretch'')],
          Obj [(''backgroundColor'', Str ''#ffffff''),
               (''borderColor'', Undefined),
               (''opacity'', Undefined)],
          Obj [(''borderWidth'', Num 0)],
          Obj []]"
  by (simp add: buttonContainerStyle_def buttonBackgroundColor_def buttonBorderColor_def
      buttonOpacity_def faded_colors_def plain_style_def nullish_def js_str_def js_num_def)

text \<open>
  C2, amended. For every colour set and every pressed flag, when \<open>disabled\<close> is true the
  container, shadow and text styles use the disabled colour, which falls back to the base
  colour when it is unset, and the container and shadow styles use \<open>opacityDisabled\<close> as it
  is, with no fallback (the text style has no opacity, and a shadow with no resolved colour
  is the sentinel). None of the three styles depends on the pressed flag then. The pressed
  colours, falling back to the base colours, and \<open>opacityPressed\<close> apply when the button is
  pressed and not disabled.
\<close>

theorem disabled_over_pressed:
  "(d \<longrightarrow>
      buttonContainerStyle bs m w c d ov p =
        Arr ([baseButtonStyle_buttonContainer bs, buttonModifierStyle_size bs m,
              buttonWidthOptionStyle_width bs w,
              Obj [(''backgroundColor'',
                      js_str (nullish (containerBackgroundDisabled c) (containerBackground c))),
                   (''borderColor'',
                      js_str (nullish (containerBorderDisabled c) (containerBorder c))),
                   (''opacity'', js_num (opacityDisabled c))]]
             @ (if nullish (containerBorderDisabled c) (containerBorder c) = None
                then [Obj [(''borderWidth'', Num 0)]] else [])
             @ [ov]) \<and>
      buttonShadowStyle bs m w c d p =
        (if nullish (shadowDisabled c) (shadow c) = None then noShadow bs
         else Arr [shadowStyle bs,
                   Obj [(''backgroundColor'', js_str (nullish (shadowDisabled c) (shadow c))),
                        (''opacity'', js_num (opacityDisabled c))],
                   buttonModifierStyle_size bs m, buttonWidthOptionStyle_width bs w]) \<and>
      buttonTextStyle bs tr m c d bold p =
        Arr [Obj (js_set (buttonModifierStyle_text bs m) ''fontWeight''
                    (if bold then tr (js_get (buttonModifierStyle_text bs m) ''fontWeight'')
                     else js_get (buttonModifierStyle_text bs m) ''fontWeight'')),
             Obj [(''color'', js_str (nullish (disabledText c) (text c)))]]) \<and>
   (\<not> d \<longrightarrow> p \<longrightarrow>
      buttonContainerStyle bs m w c d ov p =
        Arr ([baseButtonStyle_buttonContainer bs, buttonModifierStyle_size bs m,
              buttonWidthOptionStyle_width bs w,
              Obj [(''backgroundColor'',
                      js_str (nullish (containerBackgroundPressed c) (containerBackground c))),
                   (''borderColor'',
                      js_str (nullish (containerBorderPressed c) (containerBorder c))),
                   (''opacity'', js_num (opacityPressed c))]]
             @ (if nullish (containerBorderPressed c) (containerBorder c) = None
                then [Obj [(''borderWidth'', Num 0)]] else [])
             @ [ov]) \<and>
      buttonShadowStyle bs m w c d p =
        (if nullish (shadowPressed c) (shadow c) = None then noShadow bs
         else Arr [shadowStyle bs,
                   Obj [(''backgroundColor'', js_str (nullish (shadowPressed c) (shadow c))),
                        (''opacity'', js_num (opacityPressed c))],
                   buttonModifierStyle_size bs m, buttonWidthOptionStyle_width bs w]) \<and>
      buttonTextStyle bs tr m c d bold p =
        Arr [Obj (js_set (buttonModifierStyle_text bs m) ''fontWeight''
                    (if bold then tr (js_get (buttonModifierStyle_text bs m) ''fontWeight'')
                     else js_get (buttonModifierStyle_text bs m) ''fontWeight'')),
             Obj [(''color'', js_str (nullish (pressedText c) (text c)))]])"
  by (simp add: buttonContainerStyle_def buttonShadowStyle_def buttonTextStyle_def
      buttonBackgroundColor_def buttonBorderColor_def buttonOpacity_def buttonShadowColor_def
      buttonTextColor_def Let_def)

theorem disabled_over_pressed_witness:
  "buttonContainerStyle plain_style ''default'' ''stretch'' faded_colors True (Obj []) True =
     Arr [Obj [(''borderWidth'', Num 2)], Obj [(''minHeight'', Num 48)],
          Obj [(''alignSelf'', Str ''stretch'')],
          Obj [(''backgroundColor'', Str ''#ffffff''),
               (''borderColor'', Undefined),
               (''opacity'', Undefined)],
          Obj [(''borderWidth'', Num 0)],
          Obj []] \<and>
   buttonTextStyle plain_style (\<lambda>v. Str ''700'') ''default'' faded_colors True True True =
     Arr [Obj [(''fontWeight'', Str ''700'')], Obj [(''color'', Str ''#888888'')]] \<and>
   buttonContainerStyle plain_style ''default'' ''stretch'' faded_colors False (Obj []) True =
     Arr [Obj [(''borderWidth'', Num 2)], Obj [(''minHeight'', Num 48)],
          Obj [(''alignSelf'', Str ''stretch'')],
          Obj [(''backgroundColor'', Str ''#eeeeee''),
               (''borderColor'', Undefined),
               (''opacity'', Num (3 / 4))],
          Obj [(''borderWidth'', Num 0)],
          Obj []]"
  using disabled_over_pressed [of True plain_style "''default''" "''stretch''" faded_colors
      "Obj []" True "\<lambda>v. Str ''700''" True]
    disabled_over_pressed [of False plain_style "''default''" "''stretch''" faded_colors
      "Obj []" True "\<lambda>v. Str ''700''" True]
  by (simp add: faded_colors_def plain_style_def nullish_def js_str_def js_num_def js_get_def)

section \<open>Icon size\<close>

text \<open>
  C9. For every environment, props, layout state and pressed flag, an icon that the button
  renders, left or right, gets the width and the height 20 when the \<open>modifier\<close> prop is
  \<open>small\<close>, and 24 otherwise (also when the prop is left out): the size is a function of
  \<open>modifier\<close> alone.
\<close>

theorem icon_size_by_modifier:
  "iconSize (default_to ''default'' (modifier props)) =
     (if modifier props = Some ''small'' then 20 else 24) \<and>
   (leftIcon (Button env props st p) = Some i \<longrightarrow>
      svg_width i = (if modifier props = Some ''small'' then 20 else 24) \<and>
      svg_height i = (if modifier props = Some ''small'' then 20 else 24)) \<and>
   (rightIcon (Button env props st p) = Some j \<longrightarrow>
      svg_width j = (if modifier props = Some ''small'' then 20 else 24) \<and>
      svg_height j = (if modifier props = Some ''small'' then 20 else 24))"
proof -
  have sz: "iconSize (default_to ''default'' (modifier props)) =
      (if modifier props = Some ''small'' then 20 else 24)"
    by (cases "modifier props") (simp_all add: iconSize_def default_to_def)
  have l: "leftIcon (Button env props st p) = Some i \<Longrightarrow>
      svg_width i = iconSize (default_to ''default'' (modifier props)) \<and>
      svg_height i = iconSize (default_to ''default'' (modifier props))"
    by (auto simp add: Button_def Let_def split: if_splits)
  have r: "rightIcon (Button env props st p) = Some j \<Longrightarrow>
      svg_width j = iconSize (default_to ''default'' (modifier props)) \<and>
      svg_height j = iconSize (default_to ''default'' (modifier props))"
    by (auto simp add: Button_def Let_def split: if_splits)
  from l r show ?thesis
    unfolding sz [symmetric] by blast
qed

theorem icon_size_by_modifier_witness:
  "rightIcon (Button plain_env icon_props unmeasured False) =
     Some \<lparr>svg_type = ''arrow'', svg_width = 20, svg_height = 20,
           svg_style = Some (Arr [NoStyle])\<rparr> \<and>
   leftIcon (Button plain_env (icon_props\<lparr>modifier := None, iconPosition := Some ''left''\<rparr>)
       unmeasured True) =
     Some \<lparr>svg_type = ''arrow'', svg_width = 24, svg_height = 24, svg_style = None\<rparr>"
proof -
  have r: "rightIcon (Button plain_env icon_props unmeasured False) =
      Some \<lparr>svg_type = ''arrow'', svg_width = iconSize ''small'', svg_height = iconSize ''small'',
            svg_style = Some (Arr [NoStyle])\<rparr>"
    by (simp add: Button_def Let_def icon_props_def default_to_def truthy_def)
  have l: "leftIcon (Button plain_env (icon_props\<lparr>modifier := None, iconPosition := Some ''left''\<rparr>)
        unmeasured True) =
      Some \<lparr>svg_type = ''arrow'', svg_width = iconSize ''default'',
            svg_height = iconSize ''default'', svg_style = None\<rparr>"
    by (simp add: Button_def Let_def icon_props_def default_to_def truthy_def)
  from icon_size_by_modifier [of icon_props plain_env unmeasured False,
        THEN conjunct2, THEN conjunct2, rule_format, OF r]
    icon_size_by_modifier [of "icon_props\<lparr>modifier := None, iconPosition := Some ''left''\<rparr>"
        plain_env unmeasured True, THEN conjunct2, THEN conjunct1, rule_format, OF l]
    r l
  show ?thesis
    by (simp add: icon_props_def)
qed

section \<open>The measured layout of the button\<close>

lemma layout_events_snoc:
  "layout_events (evts @ [evt]) st = onLayoutButtonContainer evt (layout_events evts st)"
  by (induction evts arbitrary: st) simp_all

text \<open>
  C5, as the claim states it, fails twice. The state holds the measured size rounded down,
  not the exact one: a container of height 48.5 and width 100.25 gives 48 and 100. And the
  state is set again by every later layout event: after a second event with another size
  it holds that size.
\<close>

theorem measured_layout_counterexample:
  "layout_events [\<lparr>layout_height = 97 / 2, layout_width = 401 / 4\<rparr>] unmeasured =
     \<lparr>buttonContainerHeight = Some 48, buttonContainerWidth = Some 100\<rparr> \<and>
   layout_events [\<lparr>layout_height = 97 / 2, layout_width = 401 / 4\<rparr>] unmeasured \<noteq>
     \<lparr>buttonContainerHeight = Some (97 / 2), buttonContainerWidth = Some (401 / 4)\<rparr> \<and>
   layout_events [\<lparr>layout_height = 48, layout_width = 100\<rparr>] unmeasured =
     \<lparr>buttonContainerHeight = Some 48, buttonContainerWidth = Some 100\<rparr> \<and>
   layout_events [\<lparr>layout_height = 48, layout_width = 100\<rparr>,
                  \<lparr>layout_height = 60, layout_width = 120\<rparr>] unmeasured =
     \<lparr>buttonContainerHeight = Some 60, buttonContainerWidth = Some 120\<rparr> \<and>
   layout_events [\<lparr>layout_height = 48, layout_width = 100\<rparr>,
                  \<lparr>layout_height = 60, layout_width = 120\<rparr>] unmeasured \<noteq>
     layout_events [\<lparr>layout_height = 48, layout_width = 100\<rparr>] unmeasured"
  by (simp add: onLayoutButtonContainer_def unmeasured_def Math_floor_def)

text \<open>
  C5, amended. For every mount of \<open>Button\<close> the measured layout starts unmeasured, and the
  shadow layer then gets an \<open>undefined\<close> height and width. After any layout events of the
  container, the state is measured and holds the height and the width of the latest event,
  each rounded down by \<open>Math.floor\<close>; it never goes back to unmeasured. The next render
  applies exactly these two values as the height and width of the shadow layer, after the
  resolved shadow style.
\<close>

theorem measured_layout_latest_floor:
  fixes st :: ButtonLayout
  shows
  "layout_events (evts @ [evt]) st =
     \<lparr>buttonContainerHeight = Some (Math_floor (layout_height evt)),
      buttonContainerWidth = Some (Math_floor (layout_width evt))\<rparr> \<and>
   shadowLayer_style (Button env props (layout_events (evts @ [evt]) st) p) =
     Arr [buttonShadowStyle (buttonStyle env) (default_to ''default'' (modifier props))
            (default_to ''stretch'' (widthOption props))
            (buttonColors (buttonColorOverrides props) (colorScheme env)
               (default_to ''primary'' (variant props))
               (darkButtonColorMappings env) (lightButtonColorMappings env))
            (default_to False (disabled props)) p,
          Obj [(''height'', Num (Math_floor (layout_height evt))),
               (''width'', Num (Math_floor (layout_width evt)))]] \<and>
   shadowLayer_style (Button env props unmeasured p) =
     Arr [buttonShadowStyle (buttonStyle env) (default_to ''default'' (modifier props))
            (default_to ''stretch'' (widthOption props))
            (buttonColors (buttonColorOverrides props) (colorScheme env)
               (default_to ''primary'' (variant props))
               (darkButtonColorMappings env) (lightButtonColorMappings env))
            (default_to False (disabled props)) p,
          Obj [(''height'', Undefined), (''width'', Undefined)]]"
  by (simp add: layout_events_snoc onLayoutButtonContainer_def Button_def Let_def js_num_def
      unmeasured_def)

theorem measured_layout_latest_floor_witness:
  "layout_events ([\<lparr>layout_height = 48, layout_width = 100\<rparr>] @
                  [\<lparr>layout_height = 121 / 2, layout_width = 120\<rparr>]) unmeasured =
     \<lparr>buttonContainerHeight = Some 60, buttonContainerWidth = Some 120\<rparr> \<and>
   shadowLayer_style (Button plain_env icon_props
       (layout_events ([\<lparr>layout_height = 48, layout_width = 100\<rparr>] @
                       [\<lparr>layout_height = 121 / 2, layout_width = 120\<rparr>]) unmeasured) False) =
     Arr [Obj [(''height'', Num 0), (''width'', Num 0), (''backgroundColor'', Str ''transparent'')],
          Obj [(''height'', Num 60), (''width'', Num 120)]]"
proof -
  have s: "buttonShadowStyle (buttonStyle plain_env) (default_to ''default'' (modifier icon_props))
            (default_to ''stretch'' (widthOption icon_props))
            (buttonColors (buttonColorOverrides icon_props) (colorScheme plain_env)
               (default_to ''primary'' (variant icon_props))
               (darkButtonColorMappings plain_env) (lightButtonColorMappings plain_env))
            (default_to False (disabled icon_props)) False =
     Obj [(''height'', Num 0), (''width'', Num 0), (''backgroundColor'', Str ''transparent'')]"
    by (simp add: plain_env_def icon_props_def plain_style_def faded_colors_def
      buttonShadowStyle_def buttonShadowColor_def buttonColors_def default_to_def nullish_def)
  have f: "Math_floor (121 / 2) = 60" "Math_floor 120 = 120"
    by (simp_all add: Math_floor_def)
  note th = measured_layout_latest_floor [of "[\<lparr>layout_height = 48, layout_width = 100\<rparr>]"
      "\<lparr>layout_height = 121 / 2, layout_width = 120\<rparr>" unmeasured plain_env icon_props False]
  show ?thesis
    apply (subst th [THEN conjunct2, THEN conjunct1])
    apply (subst th [THEN conjunct1])
    apply (simp add: s f)
    done
qed

section \<open>Alert: visibility and loading\<close>

text \<open>
  C1. For every combination of props, the host modal is shown if and only if \<open>visible\<close> is
  true or \<open>isLoading\<close> is \<open>true\<close>; whenever \<open>isLoading\<close> is \<open>true\<close> the child of the
  modal is the loading overlay, whatever \<open>visible\<close> is, and otherwise it is the container
  with the backdrop and the children.
\<close>

theorem Alert_visible_or_loading:
  "modal_visible (modal (Alert props)) = (visible props \<or> isLoading props = Some True) \<and>
   (isLoading props = Some True \<longrightarrow>
      modal_children (modal (Alert props)) = LoadingIndicatorOverlay) \<and>
   (isLoading props \<noteq> Some True \<longrightarrow>
      modal_children (modal (Alert props)) =
        AlertContainer (visible props) (dismissable props) (children props))"
  by (simp add: Alert_def Let_def)

theorem Alert_visible_or_loading_witness:
  "modal_visible (modal (Alert loading_props)) \<and>
   modal_children (modal (Alert loading_props)) = LoadingIndicatorOverlay \<and>
   \<not> modal_visible (modal (Alert (loading_props\<lparr>isLoading := None\<rparr>))) \<and>
   modal_children (modal (Alert (loading_props\<lparr>isLoading := Some False\<rparr>))) =
     AlertContainer False (Some True) ''message''"
  using Alert_visible_or_loading [of loading_props]
    Alert_visible_or_loading [of "loading_props\<lparr>isLoading := None\<rparr>"]
    Alert_visible_or_loading [of "loading_props\<lparr>isLoading := Some False\<rparr>"]
  by (simp add: loading_props_def)

section \<open>Alert: dismissal and passthrough props\<close>

text \<open>
  C6, as the claim states it, fails when the caller passes \<open>onRequestClose\<close> among the
  passthrough props: the handler of a close request of the host is then the caller's
  function, not the \<open>dismiss\<close> of the context, and calling it does not call
  \<open>onChange(false)\<close>.
\<close>

theorem dismiss_counterexample:
  "modal_onRequestClose (modal (Alert (loading_props\<lparr>modalProps := full_passthrough\<rparr>))) \<noteq>
     Some (providerValue_dismiss (Alert (loading_props\<lparr>modalProps := full_passthrough\<rparr>))) \<and>
   host_fires (modal (Alert (loading_props\<lparr>modalProps := full_passthrough\<rparr>))) RequestClose =
     [CallerCalled 1] \<and>
   invoke (providerValue_dismiss (Alert (loading_props\<lparr>modalProps := full_passthrough\<rparr>))) =
     [OnChangeCalled 0 False]"
  by (simp add: Alert_def Let_def spread_def as_handler_def host_fires_def host_handler_def loading_props_def
      full_passthrough_def)

text \<open>
  C6, amended. When the passthrough props hold no \<open>onRequestClose\<close>, the \<open>dismiss\<close> that
  \<open>Alert\<close> provides through its context is the same function as the handler of a close
  request of the host, so that either one makes the same call \<open>onChange(false)\<close>, and no
  call when \<open>onChange\<close> is left out.
\<close>

theorem dismiss_is_close_handler:
  "pt_onRequestClose (modalProps props) = Absent \<Longrightarrow>
   modal_onRequestClose (modal (Alert props)) = Some (providerValue_dismiss (Alert props)) \<and>
   host_fires (modal (Alert props)) RequestClose = invoke (providerValue_dismiss (Alert props)) \<and>
   invoke (providerValue_dismiss (Alert props)) =
     (case onChange props of None \<Rightarrow> [] | Some f \<Rightarrow> [OnChangeCalled f False])"
  by (simp add: Alert_def Let_def spread_def as_handler_def host_fires_def host_handler_def split: option.splits)

theorem dismiss_is_close_handler_witness:
  "pt_onRequestClose (modalProps loading_props) = Absent \<and>
   host_fires (modal (Alert loading_props)) RequestClose = [OnChangeCalled 0 False] \<and>
   invoke (providerValue_dismiss (Alert loading_props)) = [OnChangeCalled 0 False]"
proof -
  have h: "pt_onRequestClose (modalProps loading_props) = Absent"
    by (simp add: loading_props_def no_passthrough_def)
  from dismiss_is_close_handler [OF h] h show ?thesis
    by (simp add: loading_props_def)
qed

text \<open>
  C10. The passthrough props are spread onto the modal after the props that \<open>Alert\<close> sets,
  so each of \<open>presentationStyle\<close>, \<open>transparent\<close>, \<open>onShow\<close>, \<open>onRequestClose\<close> and
  \<open>onDismiss\<close> that the caller supplies replaces the value of \<open>Alert\<close>. With a supplied
  \<open>onRequestClose\<close> or \<open>onDismiss\<close>, the matching event of the host calls the caller's
  function, if any, and no longer \<open>onChange(false)\<close>.
\<close>

theorem passthrough_replaces_own_props:
  "(pt_presentationStyle (modalProps props) = Present s \<longrightarrow>
      modal_presentationStyle (modal (Alert props)) = s) \<and>
   (pt_transparent (modalProps props) = Present b \<longrightarrow>
      modal_transparent (modal (Alert props)) = b) \<and>
   (pt_onShow (modalProps props) = Present f \<longrightarrow>
      modal_onShow (modal (Alert props)) = map_option Caller f \<and>
      host_fires (modal (Alert props)) Show =
        (case f of None \<Rightarrow> [] | Some k \<Rightarrow> [CallerCalled k])) \<and>
   (pt_onRequestClose (modalProps props) = Present g \<longrightarrow>
      modal_onRequestClose (modal (Alert props)) = map_option Caller g \<and>
      host_fires (modal (Alert props)) RequestClose =
        (case g of None \<Rightarrow> [] | Some k \<Rightarrow> [CallerCalled k])) \<and>
   (pt_onDismiss (modalProps props) = Present h \<longrightarrow>
      modal_onDismiss (modal (Alert props)) = map_option Caller h \<and>
      host_fires (modal (Alert props)) Dismiss =
        (case h of None \<Rightarrow> [] | Some k \<Rightarrow> [CallerCalled k]))"
  by (simp add: Alert_def Let_def spread_def as_handler_def host_fires_def host_handler_def split: option.splits)

theorem passthrough_replaces_own_props_witness:
  "modal_presentationStyle (modal (Alert (loading_props\<lparr>modalProps := full_passthrough\<rparr>))) =
     Some ''fullScreen'' \<and>
   modal_transparent (modal (Alert (loading_props\<lparr>modalProps := full_passthrough\<rparr>))) =
     Some False \<and>
   host_fires (modal (Alert (loading_props\<lparr>modalProps := full_passthrough\<rparr>))) Show =
     [CallerCalled 2] \<and>
   host_fires (modal (Alert (loading_props\<lparr>modalProps := full_passthrough\<rparr>))) RequestClose =
     [CallerCalled 1] \<and>
   host_fires (modal (Alert (loading_props\<lparr>modalProps := full_passthrough\<rparr>))) Dismiss = []"
  using passthrough_replaces_own_props [of "loading_props\<lparr>modalProps := full_passthrough\<rparr>"
      "Some ''fullScreen''" "Some False" "Some 2" "Some 1" None]
  by (simp add: loading_props_def full_passthrough_def)

section \<open>AlertContent: measure once, then scroll\<close>

lemma content_layouts_measured:
  "h \<noteq> 0 \<Longrightarrow> content_layouts env props evts h = h"
  by (induction evts) (simp_all add: content_layout_def element_onLayout_def AlertContent_def)

lemma content_layouts_append:
  "content_layouts env props (evts @ evts') h =
     content_layouts env props evts' (content_layouts env props evts h)"
  by (induction evts arbitrary: h) simp_all

lemma content_layouts_first:
  "content_layouts env props evts 0 =
     (case find (\<lambda>evt. layout_height evt \<noteq> 0) evts of
        None \<Rightarrow> 0 | Some evt \<Rightarrow> layout_height evt)"
proof (induction evts)
  case Nil
  then show ?case by simp
next
  case (Cons evt evts)
  show ?case
  proof (cases "layout_height evt = 0")
    case True
    with Cons show ?thesis
      by (simp add: content_layout_def element_onLayout_def AlertContent_def onLayout_def)
  next
    case False
    then show ?thesis
      by (simp add: content_layout_def element_onLayout_def AlertContent_def onLayout_def
          content_layouts_measured)
  qed
qed

text \<open>
  C4. While the height state is \<open>0\<close>, \<open>AlertContent\<close> renders the plain view; with a height
  state \<open>h\<close> other than \<open>0\<close> it renders the scroll view whose \<open>maxHeight\<close> is \<open>h\<close>. After
  any layout events since the mount, the height state is the first measured height that is
  not \<open>0\<close> (and \<open>0\<close> when there is none yet); and once it is not \<open>0\<close>, no further layout
  event changes it, so that the component stays in the scrolling phase.
\<close>

theorem AlertContent_two_phases:
  "AlertContent env props 0 =
     View (Arr [styles_container (spacing env),
                Obj [(''backgroundColor'', Str (colors_secondaryBackground env))],
                styles_content (spacing env), content_style props])
       (content_children props) \<and>
   (h \<noteq> 0 \<longrightarrow>
      AlertContent env props h =
        ScrollView (Arr [styles_container (spacing env),
                         Obj [(''backgroundColor'', Str (colors_secondaryBackground env))],
                         Obj [(''maxHeight'', Num h)]])
          (Arr [styles_content (spacing env), content_style props])
          (content_children props)) \<and>
   content_layouts env props evts 0 =
     (case find (\<lambda>evt. layout_height evt \<noteq> 0) evts of
        None \<Rightarrow> 0 | Some evt \<Rightarrow> layout_height evt) \<and>
   (content_layouts env props evts 0 \<noteq> 0 \<longrightarrow>
      content_layouts env props (evts @ evts') 0 = content_layouts env props evts 0)"
  using content_layouts_first [of env props evts]
  by (simp add: content_layouts_append content_layouts_measured AlertContent_def)

theorem AlertContent_two_phases_witness:
  "content_layouts content_env content_props heights 0 = 120 \<and>
   AlertContent content_env content_props 120 =
     ScrollView (Arr [styles_container (spacing content_env),
                      Obj [(''backgroundColor'', Str ''#ffffff'')],
                      Obj [(''maxHeight'', Num 120)]])
       (Arr [styles_content (spacing content_env), NoStyle]) ''message'' \<and>
   content_layouts content_env content_props
     (heights @ [\<lparr>layout_height = 0, layout_width = 320\<rparr>]) 0 = 120"
proof -
  note th = AlertContent_two_phases [of content_env content_props 120 heights
      "[\<lparr>layout_height = 0, layout_width = 320\<rparr>]"]
  have a: "content_layouts content_env content_props heights 0 = 120"
    using th [THEN conjunct2, THEN conjunct2, THEN conjunct1] by (simp add: heights_def)
  have b: "AlertContent content_env content_props 120 =
     ScrollView (Arr [styles_container (spacing content_env),
                      Obj [(''backgroundColor'', Str ''#ffffff'')],
                      Obj [(''maxHeight'', Num 120)]])
       (Arr [styles_content (spacing content_env), NoStyle]) ''message''"
    using th [THEN conjunct2, THEN conjunct1] by (simp add: content_env_def content_props_def)
  have c: "content_layouts content_env content_props
     (heights @ [\<lparr>layout_height = 0, layout_width = 320\<rparr>]) 0 = 120"
    using th [THEN conjunct2, THEN conjunct2, THEN conjunct2] a by simp
  from a b c show ?thesis
    by simp
qed

end
